theory Spec2Isabelle
  imports Main "HOL-Library.Word"
begin

section \<open>Constants and on-disk data\<close>

text \<open>
  The file system of \<^verbatim>\<open>jumbo_file_system.c\<close> sits on a block store. The header that
  declares the constants and \<^verbatim>\<open>struct block\<close> is not part of the sources, so the
  constants are parameters of the model, collected in one record and passed to every
  operation that uses them.
\<close>

record config =
  BLOCK_SIZE :: nat
  MAX_NAME_LENGTH :: nat
  MAX_DIR_ENTRIES :: nat
  MAX_DATA_BLOCKS :: nat
  MAX_FILE_SIZE :: nat

type_synonym block_num_t = nat
type_synonym byte = "8 word"

text \<open>
  Modelled from the spec: \<^verbatim>\<open>struct block\<close> (declared in the missing header). The spec
  describes a block as a tagged union of a Directory Node (a count and a bounded array of
  entries \<open>{name, target}\<close>) and an Inode (a byte length and a fixed array of data-block
  handles); a data block holds raw bytes. The field names are the ones the source uses
  (\<^verbatim>\<open>contents.dirnode.num_entries\<close>, \<^verbatim>\<open>entries[i].block_num\<close>, \<^verbatim>\<open>entries[i].name\<close>,
  \<^verbatim>\<open>contents.inode.file_size\<close>, \<^verbatim>\<open>contents.inode.data_blocks\<close>). The constructor of
  a block is its \<^verbatim>\<open>is_dir\<close> tag: \<open>Dir\<close> for \<^verbatim>\<open>IS_DIR\<close>, \<open>File\<close> for \<^verbatim>\<open>IS_FILE\<close>.
  Names are C strings without the terminating NUL, so \<^verbatim>\<open>strcmp(a, b) == 0\<close> is equality
  and \<^verbatim>\<open>strlen\<close> is \<open>length\<close>.
\<close>

record dir_entry =
  block_num :: block_num_t
  name :: string

record dirnode =
  num_entries :: nat
  entries :: "dir_entry list"

record inode =
  file_size :: nat
  data_blocks :: "block_num_t list"

datatype block = Dir dirnode | File inode | Data "byte list"

section \<open>The block store\<close>

text \<open>
  Modelled from the spec: the block store (\<^verbatim>\<open>read_block\<close>, \<^verbatim>\<open>write_block\<close>,
  \<^verbatim>\<open>allocate_block\<close>, \<^verbatim>\<open>release_block\<close>), an external collaborator of which the
  sources hold only the calls. The spec gives its contract: blocks are persisted by
  numeric handle, \<^verbatim>\<open>allocate_block\<close> returns a handle and 0 on exhaustion, every other
  call returns success or failure. The model keeps the contents of every handle, the
  handles free for allocation in the order they will be handed out, and, for each kind of
  call, the handles on which the device fails. A released handle is the next one
  allocated.
\<close>

record block_store =
  blocks :: "block_num_t \<Rightarrow> block"
  free_blocks :: "block_num_t list"
  read_faults :: "block_num_t list"
  write_faults :: "block_num_t list"
  release_faults :: "block_num_t list"

definition read_block :: "block_store \<Rightarrow> block_num_t \<Rightarrow> block option" where
  "read_block d h = (if h \<in> set (read_faults d) then None else Some (blocks d h))"

definition write_block :: "block_store \<Rightarrow> block_num_t \<Rightarrow> block \<Rightarrow> bool \<times> block_store" where
  "write_block d h b =
     (if h \<in> set (write_faults d) then (False, d)
      else (True, d\<lparr>blocks := (blocks d)(h := b)\<rparr>))"

definition allocate_block :: "block_store \<Rightarrow> block_num_t \<times> block_store" where
  "allocate_block d =
     (case free_blocks d of [] \<Rightarrow> (0, d) | h # hs \<Rightarrow> (h, d\<lparr>free_blocks := hs\<rparr>))"

definition release_block :: "block_store \<Rightarrow> block_num_t \<Rightarrow> bool \<times> block_store" where
  "release_block d h =
     (if h \<in> set (release_faults d) then (False, d)
      else (True, d\<lparr>free_blocks := h # free_blocks d\<rparr>))"

text \<open>
  The source reads a block either into a \<^verbatim>\<open>struct block\<close> or into a byte buffer. What
  a block written through one view looks like through the other depends on the byte layout
  of \<^verbatim>\<open>struct block\<close>, which the model does not have; such a read is reported as a
  failed read. \<open>read_dirnode\<close> is a read whose result the source uses through
  \<^verbatim>\<open>contents.dirnode\<close> without looking at the tag, \<open>read_bytes\<close> a read into a byte
  buffer.
\<close>

definition read_dirnode :: "block_store \<Rightarrow> block_num_t \<Rightarrow> dirnode option" where
  "read_dirnode d h = (case read_block d h of Some (Dir dn) \<Rightarrow> Some dn | _ \<Rightarrow> None)"

definition read_bytes :: "block_store \<Rightarrow> block_num_t \<Rightarrow> byte list option" where
  "read_bytes d h = (case read_block d h of Some (Data bs) \<Rightarrow> Some bs | _ \<Rightarrow> None)"

section \<open>The file system state and its return codes\<close>

record jfs =
  current_dir :: block_num_t
  store :: block_store

datatype ret =
  E_SUCCESS | E_EXISTS | E_NOT_EXISTS | E_NOT_DIR | E_IS_DIR | E_NOT_EMPTY
  | E_MAX_NAME_LENGTH | E_MAX_DIR_ENTRIES | E_MAX_FILE_SIZE | E_DISK_FULL | E_UNKNOWN

datatype tag = IS_DIR | IS_FILE

text \<open>\<^verbatim>\<open>unsigned short\<close> values: a conversion to the type keeps the low 16 bits.\<close>

definition u16 :: "nat \<Rightarrow> nat" where
  "u16 x = x mod 65536"

section \<open>Searching a directory\<close>

text \<open>
  The loop \<^verbatim>\<open>for (i = 0; i < num_entries; i++) if (strcmp(entries[i].name, name) == 0)\<close>
  that every operation runs over the current directory: the index of the first of the
  \<open>num_entries\<close> entries with the name.
\<close>

fun find_name :: "dir_entry list \<Rightarrow> string \<Rightarrow> nat option" where
  "find_name [] nm = None"
| "find_name (e # es) nm =
     (if name e = nm then Some 0 else map_option Suc (find_name es nm))"

definition find_entry :: "dirnode \<Rightarrow> string \<Rightarrow> nat option" where
  "find_entry dn nm = find_name (take (num_entries dn) (entries dn)) nm"

definition dir_names :: "dirnode \<Rightarrow> string list" where
  "dir_names dn = map name (take (num_entries dn) (entries dn))"

text \<open>\<^verbatim>\<open>is_dir\<close>: a failed read counts as "not a directory".\<close>

definition is_dir :: "block_store \<Rightarrow> block_num_t \<Rightarrow> bool" where
  "is_dir d b = (case read_block d b of Some (Dir _) \<Rightarrow> True | _ \<Rightarrow> False)"

section \<open>Navigation\<close>

text \<open>\<^verbatim>\<open>jfs_chdir\<close>; a NULL name is \<open>None\<close>.\<close>

definition jfs_chdir :: "jfs \<Rightarrow> string option \<Rightarrow> ret \<times> jfs" where
  "jfs_chdir s directory_name =
     (case directory_name of
        None \<Rightarrow> (E_SUCCESS, s\<lparr>current_dir := 1\<rparr>)
      | Some nm \<Rightarrow>
          (case read_dirnode (store s) (current_dir s) of
             None \<Rightarrow> (E_UNKNOWN, s)
           | Some current_block \<Rightarrow>
               (case find_entry current_block nm of
                  None \<Rightarrow> (E_NOT_EXISTS, s)
                | Some i \<Rightarrow>
                    (let bn = block_num (entries current_block ! i)
                     in if \<not> is_dir (store s) bn then (E_NOT_DIR, s)
                        else (E_SUCCESS, s\<lparr>current_dir := bn\<rparr>)))))"

section \<open>Metadata\<close>

text \<open>
  \<^verbatim>\<open>struct stats\<close>, the record \<^verbatim>\<open>jfs_stat\<close> fills in. The caller passes the buffer;
  the function returns it as it leaves it, also on the error paths.
\<close>

record stats =
  st_is_dir :: tag
  st_name :: string
  st_block_num :: block_num_t
  st_num_data_blocks :: nat
  st_file_size :: nat

definition jfs_stat :: "config \<Rightarrow> jfs \<Rightarrow> string \<Rightarrow> stats \<Rightarrow> ret \<times> stats" where
  "jfs_stat c s nm buf =
     (case read_dirnode (store s) (current_dir s) of
        None \<Rightarrow> (E_UNKNOWN, buf)
      | Some current_block \<Rightarrow>
          (case find_entry current_block nm of
             None \<Rightarrow> (E_NOT_EXISTS, buf)
           | Some file_index \<Rightarrow>
               (let entry_block_num = block_num (entries current_block ! file_index);
                    buf1 = buf\<lparr>st_block_num := entry_block_num, st_name := nm\<rparr>
                in case read_block (store s) entry_block_num of
                     None \<Rightarrow> (E_UNKNOWN, buf1)
                   | Some (Dir _) \<Rightarrow>
                       (E_SUCCESS,
                        buf1\<lparr>st_is_dir := IS_DIR, st_num_data_blocks := 0, st_file_size := 0\<rparr>)
                   | Some (File ino) \<Rightarrow>
                       (E_SUCCESS,
                        buf1\<lparr>st_is_dir := IS_FILE,
                             st_num_data_blocks :=
                               (if file_size ino > 0
                                then (file_size ino - 1) div BLOCK_SIZE c + 1 else 0),
                             st_file_size := file_size ino\<rparr>)
                   | Some (Data _) \<Rightarrow> (E_UNKNOWN, buf1))))"

section \<open>Directories\<close>



section \<open>Files\<close>

text \<open>\<^verbatim>\<open>jfs_creat\<close>. The new inode block is zeroed: size 0 and every data-block slot 0.\<close>

definition jfs_creat :: "config \<Rightarrow> jfs \<Rightarrow> string \<Rightarrow> ret \<times> jfs" where
  "jfs_creat c s file_name =
     (if length file_name > MAX_NAME_LENGTH c then (E_MAX_NAME_LENGTH, s)
      else
        (case read_dirnode (store s) (current_dir s) of
           None \<Rightarrow> (E_UNKNOWN, s)
         | Some current_block \<Rightarrow>
             (case find_entry current_block file_name of
                Some i \<Rightarrow> (E_EXISTS, s)
              | None \<Rightarrow>
                  if num_entries current_block \<ge> MAX_DIR_ENTRIES c then (E_MAX_DIR_ENTRIES, s)
                  else
                    (case allocate_block (store s) of
                       (inode_block_num, d1) \<Rightarrow>
                         if inode_block_num = 0 then (E_DISK_FULL, s\<lparr>store := d1\<rparr>)
                         else
                           (let inode_block =
                                  File \<lparr>file_size = 0,
                                        data_blocks = replicate (MAX_DATA_BLOCKS c) 0\<rparr>
                            in case write_block d1 inode_block_num inode_block of
                                 (ok2, d2) \<Rightarrow>
                                   if \<not> ok2
                                   then (E_UNKNOWN,
                                         s\<lparr>store := snd (release_block d2 inode_block_num)\<rparr>)
                                   else
                                     (let n = num_entries current_block;
                                          current_block' =
                                            current_block
                                              \<lparr>entries := (entries current_block)
                                                  [n := \<lparr>block_num = inode_block_num,
                                                         name = file_name\<rparr>],
                                               num_entries := n + 1\<rparr>
                                      in case write_block d2 (current_dir s)
                                                (Dir current_block') of
                                           (ok3, d3) \<Rightarrow>
                                             if \<not> ok3
                                             then (E_UNKNOWN,
                                                   s\<lparr>store :=
                                                       snd (release_block d3 inode_block_num)\<rparr>)
                                             else (E_SUCCESS, s\<lparr>store := d3\<rparr>)))))))"



section \<open>Reading a file\<close>

text \<open>
  The copy loop of \<^verbatim>\<open>jfs_read\<close> over the first \<open>block_used\<close> data-block handles. The
  model keeps the bytes copied into the caller's buffer so far; \<^verbatim>\<open>memcpy(buf +
  bytes_have_read, current_block_buf, bytes_this_block)\<close> appends to them. The result is
  whether every block could be read, the bytes copied and \<open>bytes_have_read\<close>.
\<close>

fun read_data_blocks ::
  "block_store \<Rightarrow> nat \<Rightarrow> nat \<Rightarrow> block_num_t list \<Rightarrow> byte list \<Rightarrow> nat \<Rightarrow> bool \<times> byte list \<times> nat"
where
  "read_data_blocks d bsz bytes_to_read [] buf bytes_have_read = (True, buf, bytes_have_read)"
| "read_data_blocks d bsz bytes_to_read (h # hs) buf bytes_have_read =
     (let bytes_this_block = u16 (min (bytes_to_read - bytes_have_read) bsz)
      in case read_bytes d h of
           None \<Rightarrow> (False, buf, bytes_have_read)
         | Some current_block_buf \<Rightarrow>
             read_data_blocks d bsz bytes_to_read hs
               (buf @ take bytes_this_block current_block_buf)
               (u16 (bytes_have_read + bytes_this_block)))"

text \<open>
  \<^verbatim>\<open>jfs_read\<close>: the return code, the bytes copied into \<^verbatim>\<open>buf\<close>, the value left in
  \<^verbatim>\<open>*ptr_count\<close> and the state. \<open>ptr_count\<close> is the \<^verbatim>\<open>unsigned short\<close> the caller
  passes in \<^verbatim>\<open>*ptr_count\<close>.
\<close>

definition jfs_read :: "config \<Rightarrow> jfs \<Rightarrow> string \<Rightarrow> nat \<Rightarrow> ret \<times> byte list \<times> nat \<times> jfs" where
  "jfs_read c s file_name ptr_count =
     (case read_dirnode (store s) (current_dir s) of
        None \<Rightarrow> (E_UNKNOWN, [], ptr_count, s)
      | Some current_block \<Rightarrow>
          (case find_entry current_block file_name of
             None \<Rightarrow> (E_NOT_EXISTS, [], ptr_count, s)
           | Some file_index \<Rightarrow>
               (case read_block (store s) (block_num (entries current_block ! file_index)) of
                  None \<Rightarrow> (E_UNKNOWN, [], ptr_count, s)
                | Some (Dir _) \<Rightarrow> (E_IS_DIR, [], ptr_count, s)
                | Some (Data _) \<Rightarrow> (E_UNKNOWN, [], ptr_count, s)
                | Some (File ino) \<Rightarrow>
                    (let bytes_to_read = u16 (min (file_size ino) ptr_count);
                         block_used = u16 ((bytes_to_read + BLOCK_SIZE c - 1) div BLOCK_SIZE c)
                     in case read_data_blocks (store s) (BLOCK_SIZE c) bytes_to_read
                               (take block_used (data_blocks ino)) [] 0 of
                          (ok, buf, bytes_have_read) \<Rightarrow>
                            if \<not> ok then (E_UNKNOWN, buf, ptr_count, s)
                            else (E_SUCCESS, buf, bytes_have_read, s)))))"

section \<open>Appending to a file\<close>

text \<open>
  The arithmetic of \<^verbatim>\<open>jfs_write\<close>. \<open>fsz\<close> is \<^verbatim>\<open>inode.file_size\<close>, taken as a 32-bit
  unsigned value (its declaration is in the missing header), so \<^verbatim>\<open>file_size - 1\<close> and
  the first value of \<^verbatim>\<open>next_start_position\<close> wrap at \<open>fsz = 0\<close>; the locals are
  \<^verbatim>\<open>unsigned short\<close>.
\<close>

definition append_position :: "config \<Rightarrow> nat \<Rightarrow> nat" where
  "append_position c fsz = u16 (fsz mod BLOCK_SIZE c)"

definition last_block_num :: "config \<Rightarrow> nat \<Rightarrow> nat" where
  "last_block_num c fsz = u16 (((fsz + 4294967296 - 1) mod 4294967296) div BLOCK_SIZE c)"

definition blocks_needed :: "config \<Rightarrow> nat \<Rightarrow> nat" where
  "blocks_needed c write_size = u16 ((write_size + BLOCK_SIZE c - 1) div BLOCK_SIZE c)"

definition next_start_position :: "config \<Rightarrow> nat \<Rightarrow> nat" where
  "next_start_position c fsz =
     (if fsz = 0 then 0
      else if append_position c fsz = 0 then u16 (fsz div BLOCK_SIZE c)
      else u16 ((((fsz + BLOCK_SIZE c - 1) div BLOCK_SIZE c) + 4294967296 - 1) mod 4294967296))"

text \<open>
  \<^verbatim>\<open>file_size += (write_size - append_position)\<close>: the two \<^verbatim>\<open>unsigned short\<close>
  values are subtracted as \<^verbatim>\<open>int\<close>, and the sum is stored in the 32-bit unsigned
  \<open>file_size\<close>.
\<close>

definition new_file_size :: "nat \<Rightarrow> nat \<Rightarrow> nat \<Rightarrow> nat" where
  "new_file_size fsz write_size append_pos =
     nat ((int fsz + (int write_size - int append_pos)) mod 4294967296)"

text \<open>
  \<^verbatim>\<open>memcpy(dst + off, src, length src)\<close> on a buffer, for a copy that stays inside
  \<open>dst\<close>.
\<close>

definition memcpy :: "byte list \<Rightarrow> nat \<Rightarrow> byte list \<Rightarrow> byte list" where
  "memcpy dst off src = take off dst @ src @ drop (off + length src) dst"

text \<open>
  The loops of \<^verbatim>\<open>jfs_write\<close> run \<open>i\<close> over \<open>next_start_position ..<
  next_start_position + blocks_needed\<close> and index the local array \<^verbatim>\<open>data_block_nums\<close>,
  which has \<open>blocks_needed\<close> elements, with \<open>i\<close>. An access outside the array has no
  defined behaviour in C; the model stops there with \<open>OutOfBounds\<close>. A loop otherwise
  either leaves the function (\<open>Return\<close>, with the return code and the store) or hands
  its result on (\<open>Continue\<close>).
\<close>

datatype 'a flow = OutOfBounds | Return ret block_store | Continue 'a

text \<open>The cleanup \<^verbatim>\<open>for (j = next_start_position; j < i; j++) release_block(data_block_nums[j])\<close>.\<close>

definition release_range :: "block_store \<Rightarrow> block_num_t list \<Rightarrow> nat \<Rightarrow> nat \<Rightarrow> block_store" where
  "release_range d data_block_nums start i =
     fold (\<lambda>j d'. snd (release_block d' (data_block_nums ! j))) [start ..< i] d"

fun allocate_data_blocks ::
  "block_store \<Rightarrow> block_num_t list \<Rightarrow> nat \<Rightarrow> nat list \<Rightarrow> (block_num_t list \<times> block_store) flow"
where
  "allocate_data_blocks d data_block_nums start [] = Continue (data_block_nums, d)"
| "allocate_data_blocks d data_block_nums start (i # is) =
     (case allocate_block d of
        (h, d1) \<Rightarrow>
          if length data_block_nums \<le> i then OutOfBounds
          else if h = 0
          then Return E_DISK_FULL (release_range d1 (data_block_nums[i := h]) start i)
          else allocate_data_blocks d1 (data_block_nums[i := h]) start is)"

text \<open>
  The write loop. Each round builds a zeroed buffer of \<open>BLOCK_SIZE\<close> bytes, copies
  \<open>bytes_to_write\<close> bytes of \<open>append_buffer\<close> from offset \<open>bytes_written\<close> into it and
  writes it to \<^verbatim>\<open>data_block_nums[i]\<close>. \<^verbatim>\<open>malloc\<close> is taken to succeed.
\<close>

fun write_data_blocks ::
  "nat \<Rightarrow> block_store \<Rightarrow> block_num_t list \<Rightarrow> nat \<Rightarrow> byte list \<Rightarrow> nat \<Rightarrow> nat \<Rightarrow> nat list
     \<Rightarrow> block_store flow"
where
  "write_data_blocks bsz d data_block_nums start append_buffer write_size bytes_written [] =
     Continue d"
| "write_data_blocks bsz d data_block_nums start append_buffer write_size bytes_written (i # is) =
     (let bytes_to_write = u16 (min (write_size - bytes_written) bsz);
          buffer_to_write =
            memcpy (replicate bsz 0) 0 (take bytes_to_write (drop bytes_written append_buffer))
      in if length data_block_nums \<le> i then OutOfBounds
         else
           (case write_block d (data_block_nums ! i) (Data buffer_to_write) of
              (ok, d1) \<Rightarrow>
                if \<not> ok then Return E_UNKNOWN (release_range d1 data_block_nums start i)
                else write_data_blocks bsz d1 data_block_nums start append_buffer write_size
                       (u16 (bytes_written + bytes_to_write)) is))"

text \<open>
  The first part of \<^verbatim>\<open>jfs_write\<close> after the size check: when the file ends inside a
  block, that block is read into a zeroed buffer of \<open>MAX_FILE_SIZE\<close> bytes, the new bytes
  are copied behind the old ones, and the block is released; otherwise the caller's bytes
  are used as they are.
\<close>

definition prepare_append ::
  "config \<Rightarrow> block_store \<Rightarrow> inode \<Rightarrow> byte list \<Rightarrow> (byte list \<times> block_store) option"
where
  "prepare_append c d ino buf =
     (let fsz = file_size ino
      in if append_position c fsz > 0 \<and> fsz > 0
         then (let last = data_blocks ino ! last_block_num c fsz
               in case read_bytes d last of
                    None \<Rightarrow> None
                  | Some old \<Rightarrow>
                      Some (memcpy (memcpy (replicate (MAX_FILE_SIZE c) 0) 0 old)
                              (append_position c fsz) buf,
                            snd (release_block d last)))
         else Some (buf, d))"

text \<open>
  \<^verbatim>\<open>jfs_write\<close>. \<open>buf\<close> holds the \<open>count\<close> bytes to append, and \<open>count\<close> reaches the
  function as an \<^verbatim>\<open>unsigned short\<close>. The result is \<open>None\<close> when the run indexes
  \<^verbatim>\<open>data_block_nums\<close> outside its bounds.
\<close>

definition jfs_write :: "config \<Rightarrow> jfs \<Rightarrow> string \<Rightarrow> byte list \<Rightarrow> (ret \<times> jfs) option" where
  "jfs_write c s file_name buf =
     (case read_dirnode (store s) (current_dir s) of
        None \<Rightarrow> Some (E_UNKNOWN, s)
      | Some current_block \<Rightarrow>
          (case find_entry current_block file_name of
             None \<Rightarrow> Some (E_NOT_EXISTS, s)
           | Some file_index \<Rightarrow>
               (let inode_block_num = block_num (entries current_block ! file_index)
                in case read_block (store s) inode_block_num of
                     None \<Rightarrow> Some (E_UNKNOWN, s)
                   | Some (Dir _) \<Rightarrow> Some (E_IS_DIR, s)
                   | Some (Data _) \<Rightarrow> Some (E_UNKNOWN, s)
                   | Some (File ino) \<Rightarrow>
                       if file_size ino + u16 (length buf) > MAX_FILE_SIZE c
                       then Some (E_MAX_FILE_SIZE, s)
                       else
                         (case prepare_append c (store s) ino buf of
                            None \<Rightarrow> Some (E_UNKNOWN, s)
                          | Some (append_buffer, d1) \<Rightarrow>
                              (let fsz = file_size ino;
                                   write_size = u16 (u16 (length buf) + append_position c fsz);
                                   n = blocks_needed c write_size;
                                   start = next_start_position c fsz;
                                   idx = [start ..< start + n]
                               in case allocate_data_blocks d1 (replicate n 0) start idx of
                                    OutOfBounds \<Rightarrow> None
                                  | Return r d2 \<Rightarrow> Some (r, s\<lparr>store := d2\<rparr>)
                                  | Continue (data_block_nums, d2) \<Rightarrow>
                                      (case write_data_blocks (BLOCK_SIZE c) d2 data_block_nums
                                              start append_buffer write_size 0 idx of
                                         OutOfBounds \<Rightarrow> None
                                       | Return r d3 \<Rightarrow> Some (r, s\<lparr>store := d3\<rparr>)
                                       | Continue d3 \<Rightarrow>
                                           (let ino' =
                                                  ino\<lparr>data_blocks :=
                                                        fold (\<lambda>i db. db[i := data_block_nums ! i])
                                                          idx (data_blocks ino),
                                                      file_size :=
                                                        new_file_size fsz write_size
                                                          (append_position c fsz)\<rparr>
                                            in case write_block d3 inode_block_num (File ino') of
                                                 (ok, d4) \<Rightarrow>
                                                   if \<not> ok then Some (E_UNKNOWN, s\<lparr>store := d4\<rparr>)
                                                   else Some (E_SUCCESS, s\<lparr>store := d4\<rparr>))))))))"

section \<open>The content of a file\<close>

text \<open>
  What the spec calls the content of a file: the bytes of its data blocks, in the order of
  the inode's slots, cut at \<open>file_size\<close>. Of the slots, the first
  \<open>ceil(file_size / BLOCK_SIZE)\<close> count.
\<close>

definition file_content :: "config \<Rightarrow> block_store \<Rightarrow> inode \<Rightarrow> byte list" where
  "file_content c d ino =
     take (file_size ino)
       (concat (map (\<lambda>h. case read_bytes d h of Some bs \<Rightarrow> take (BLOCK_SIZE c) bs | None \<Rightarrow> [])
                  (take ((file_size ino + BLOCK_SIZE c - 1) div BLOCK_SIZE c) (data_blocks ino))))"

section \<open>Example states\<close>

text \<open>
  A small configuration and a few concrete states on which the theorems below are
  exercised. Handles that hold nothing of interest hold an empty data block.
\<close>

definition cfg :: config where
  "cfg = \<lparr>BLOCK_SIZE = 4, MAX_NAME_LENGTH = 8, MAX_DIR_ENTRIES = 2, MAX_DATA_BLOCKS = 4,
          MAX_FILE_SIZE = 16\<rparr>"

definition mk_store :: "(block_num_t \<times> block) list \<Rightarrow> block_num_t list \<Rightarrow> block_store" where
  "mk_store al fr =
     \<lparr>blocks = (\<lambda>h. case map_of al h of Some b \<Rightarrow> b | None \<Rightarrow> Data []),
      free_blocks = fr, read_faults = [], write_faults = [], release_faults = []\<rparr>"

definition no_entry :: dir_entry where
  "no_entry = \<lparr>block_num = 0, name = []\<rparr>"

text \<open>The root holds one file \<open>a\<close> of three bytes; blocks 4 and 5 are free.\<close>

definition fs_one_file :: jfs where
  "fs_one_file =
     \<lparr>current_dir = 1,
      store = mk_store
        [(1, Dir \<lparr>num_entries = 1, entries = [\<lparr>block_num = 2, name = ''a''\<rparr>, no_entry]\<rparr>),
         (2, File \<lparr>file_size = 3, data_blocks = [3, 0, 0, 0]\<rparr>),
         (3, Data [1, 2, 3, 0])]
        [4, 5]\<rparr>"

text \<open>
  The root is full: an empty directory \<open>d\<close> and a file \<open>a\<close> of five bytes in two data
  blocks; blocks 6 and 7 are free.
\<close>

definition fs_full_dir :: jfs where
  "fs_full_dir =
     \<lparr>current_dir = 1,
      store = mk_store
        [(1, Dir \<lparr>num_entries = 2,
                 entries = [\<lparr>block_num = 2, name = ''d''\<rparr>, \<lparr>block_num = 3, name = ''a''\<rparr>]\<rparr>),
         (2, Dir \<lparr>num_entries = 0, entries = [no_entry, no_entry]\<rparr>),
         (3, File \<lparr>file_size = 5, data_blocks = [4, 5, 0, 0]\<rparr>),
         (4, Data [1, 2, 3, 4]),
         (5, Data [5, 0, 0, 0])]
        [6, 7]\<rparr>"

text \<open>The root is empty; blocks 2 to 7 are free.\<close>

definition fs_empty :: jfs where
  "fs_empty =
     \<lparr>current_dir = 1,
      store = mk_store [(1, Dir \<lparr>num_entries = 0, entries = [no_entry, no_entry]\<rparr>)]
                [2, 3, 4, 5, 6, 7]\<rparr>"

text \<open>The root holds the directory \<open>p\<close>, which holds the empty directory \<open>q\<close>.\<close>

definition fs_nested :: jfs where
  "fs_nested =
     \<lparr>current_dir = 1,
      store = mk_store
        [(1, Dir \<lparr>num_entries = 1, entries = [\<lparr>block_num = 2, name = ''p''\<rparr>, no_entry]\<rparr>),
         (2, Dir \<lparr>num_entries = 1, entries = [\<lparr>block_num = 3, name = ''q''\<rparr>, no_entry]\<rparr>),
         (3, Dir \<lparr>num_entries = 0, entries = [no_entry, no_entry]\<rparr>)]
        [4, 5]\<rparr>"

text \<open>The root holds the empty file \<open>a\<close>; blocks 3 to 6 are free.\<close>

definition fs_empty_file :: jfs where
  "fs_empty_file =
     \<lparr>current_dir = 1,
      store = mk_store
        [(1, Dir \<lparr>num_entries = 1, entries = [\<lparr>block_num = 2, name = ''a''\<rparr>, no_entry]\<rparr>),
         (2, File \<lparr>file_size = 0, data_blocks = [0, 0, 0, 0]\<rparr>)]
        [3, 4, 5, 6]\<rparr>"

text \<open>As \<open>fs_one_file\<close>, with no free block left.\<close>

definition fs_no_space :: jfs where
  "fs_no_space = fs_one_file\<lparr>store := (store fs_one_file)\<lparr>free_blocks := []\<rparr>\<rparr>"

text \<open>As \<open>fs_empty_file\<close>, on a device that fails to write block 3.\<close>

definition fs_bad_block :: jfs where
  "fs_bad_block = fs_empty_file\<lparr>store := (store fs_empty_file)\<lparr>write_faults := [3]\<rparr>\<rparr>"

text \<open>
  Blocks of 64 bytes and files of up to 29 blocks. The root holds the empty file \<open>a\<close>;
  blocks 3 to 39 are free.
\<close>

definition cfg64 :: config where
  "cfg64 = \<lparr>BLOCK_SIZE = 64, MAX_NAME_LENGTH = 7, MAX_DIR_ENTRIES = 2, MAX_DATA_BLOCKS = 29,
            MAX_FILE_SIZE = 1856\<rparr>"

definition fs64_empty_file :: jfs where
  "fs64_empty_file =
     \<lparr>current_dir = 1,
      store = mk_store
        [(1, Dir \<lparr>num_entries = 1, entries = [\<lparr>block_num = 2, name = ''a''\<rparr>, no_entry]\<rparr>),
         (2, File \<lparr>file_size = 0,
                  data_blocks = [0, 0, 0, 0, 0, 0, 0, 0, 0, 0, 0, 0, 0, 0, 0, 0, 0, 0, 0, 0,
                                 0, 0, 0, 0, 0, 0, 0, 0, 0]\<rparr>)]
        [3 ..< 40]\<rparr>"

definition stats0 :: stats where
  "stats0 = \<lparr>st_is_dir = IS_DIR, st_name = [], st_block_num = 0, st_num_data_blocks = 0,
             st_file_size = 0\<rparr>"

section \<open>Facts about the directory search\<close>

lemma find_name_None: "find_name es nm = None \<longleftrightarrow> nm \<notin> set (map name es)"
  by (induction es) auto

lemma find_entry_None: "find_entry dn nm = None \<longleftrightarrow> nm \<notin> set (dir_names dn)"
  by (simp add: find_entry_def dir_names_def find_name_None)



lemmas example_defs =
  cfg_def mk_store_def no_entry_def fs_one_file_def fs_full_dir_def fs_empty_def fs_nested_def fs_empty_file_def
  fs_no_space_def fs_bad_block_def cfg64_def fs64_empty_file_def stats0_def
  read_dirnode_def read_block_def read_bytes_def write_block_def allocate_block_def
  release_block_def find_entry_def is_dir_def u16_def

section \<open>Changing directory\<close>

text \<open>
  C10. When \<^verbatim>\<open>jfs_chdir\<close> returns an error, the state it leaves is the state it was
  called in: the current-directory cursor is the same and so is the whole block store
  (nothing written, allocated or released). An error can only come from a call with a
  name; the cursor changes only where the return code is \<open>E_SUCCESS\<close>.
\<close>

theorem jfs_chdir_error_frame:
  assumes "fst (jfs_chdir s directory_name) \<noteq> E_SUCCESS"
  shows "snd (jfs_chdir s directory_name) = s \<and> directory_name \<noteq> None"
  using assms
  by (auto simp: jfs_chdir_def Let_def split: option.splits if_splits)

theorem jfs_chdir_error_frame_witness:
  "fst (jfs_chdir fs_one_file (Some ''a'')) = E_NOT_DIR \<and>
   snd (jfs_chdir fs_one_file (Some ''a'')) = fs_one_file \<and>
   fst (jfs_chdir fs_one_file (Some ''b'')) = E_NOT_EXISTS \<and>
   snd (jfs_chdir fs_one_file (Some ''b'')) = fs_one_file"
proof -
  have a: "fst (jfs_chdir fs_one_file (Some ''a'')) = E_NOT_DIR"
    by (simp add: jfs_chdir_def example_defs)
  have b: "fst (jfs_chdir fs_one_file (Some ''b'')) = E_NOT_EXISTS"
    by (simp add: jfs_chdir_def example_defs)
  from a b jfs_chdir_error_frame [of fs_one_file "Some ''a''"]
    jfs_chdir_error_frame [of fs_one_file "Some ''b''"]
  show ?thesis by simp
qed

section \<open>Metadata of an entry\<close>




section \<open>Writes beyond the maximum file size\<close>

text \<open>
  C5. Let \<open>f\<close> name a file of the current directory (the directory and the inode are
  readable) and let the bytes to append, counted by an \<^verbatim>\<open>unsigned short\<close>, take the file
  beyond \<open>MAX_FILE_SIZE\<close>. Then \<^verbatim>\<open>jfs_write\<close> returns \<open>E_MAX_FILE_SIZE\<close> in the state
  it was called in, so nothing is written and \<^verbatim>\<open>jfs_stat\<close> answers afterwards as before.
\<close>

theorem jfs_write_too_large:
  assumes "read_dirnode (store s) (current_dir s) = Some cb"
    and "find_entry cb f = Some i"
    and "read_block (store s) (block_num (entries cb ! i)) = Some (File ino)"
    and "length buf < 65536"
    and "file_size ino + length buf > MAX_FILE_SIZE c"
  shows "jfs_write c s f buf = Some (E_MAX_FILE_SIZE, s) \<and>
         jfs_stat c (snd (the (jfs_write c s f buf))) f st = jfs_stat c s f st"
  using assms by (simp add: jfs_write_def u16_def)

theorem jfs_write_too_large_witness:
  "jfs_write cfg fs_one_file ''a'' (replicate 14 7) = Some (E_MAX_FILE_SIZE, fs_one_file) \<and>
   jfs_stat cfg (snd (the (jfs_write cfg fs_one_file ''a'' (replicate 14 7)))) ''a'' stats0 =
     jfs_stat cfg fs_one_file ''a'' stats0"
proof -
  let ?cb = "\<lparr>num_entries = 1, entries = [\<lparr>block_num = 2, name = ''a''\<rparr>, no_entry]\<rparr>"
  let ?ino = "\<lparr>file_size = 3, data_blocks = [3, 0, 0, 0]\<rparr>"
  have 1: "read_dirnode (store fs_one_file) (current_dir fs_one_file) = Some ?cb"
    by (simp add: example_defs)
  have 2: "find_entry ?cb ''a'' = Some 0" by (simp add: example_defs)
  have 3: "read_block (store fs_one_file) (block_num (entries ?cb ! 0)) = Some (File ?ino)"
    by (simp add: example_defs)
  have 4: "length (replicate 14 (7::byte)) < 65536" by simp
  have 5: "file_size ?ino + length (replicate 14 (7::byte)) > MAX_FILE_SIZE cfg"
    by (simp add: cfg_def)
  show ?thesis by (rule jfs_write_too_large [OF 1 2 3 4 5])
qed

section \<open>Removing a directory entry\<close>






section \<open>Removing a file\<close>





section \<open>The array of new block handles\<close>

lemmas write_defs =
  jfs_write_def prepare_append_def append_position_def last_block_num_def blocks_needed_def
  next_start_position_def new_file_size_def memcpy_def release_range_def Let_def

text \<open>
  C4. The claim is that every index into \<^verbatim>\<open>data_block_nums\<close> lies below
  \<open>blocks_needed\<close>. The file \<open>a\<close> of \<open>fs_full_dir\<close> has five bytes in two blocks of four.
  Appending one byte needs one block, so the array has one element, while the loops start
  at index \<open>next_start_position = 1\<close>: the first access is outside the array, and the run
  has no defined result.
\<close>

theorem data_block_nums_index_outside:
  "blocks_needed cfg (u16 (u16 (length [6 :: byte]) + append_position cfg 5)) = 1 \<and>
   next_start_position cfg 5 = 1 \<and>
   jfs_write cfg fs_full_dir ''a'' [6] = None"
  by (simp add: write_defs example_defs)

text \<open>
  C2. The claim is that after two appends \<open>b1\<close> and \<open>b2\<close> a read of
  \<open>length b1 + length b2\<close> bytes returns \<open>b1 @ b2\<close>, whatever the length of \<open>b1\<close>. With
  blocks of 64 bytes, let \<open>b1\<close> be 1793 bytes (28 full blocks and one byte) appended to the
  empty file \<open>a\<close> of \<open>fs64_empty_file\<close>, and \<open>b2\<close> one byte. The first append succeeds.
  The second needs one new block, so \<^verbatim>\<open>data_block_nums\<close> has one element, and stores the
  handle at index \<open>next_start_position = 28\<close>, far outside the array: the call has no
  defined result, and there is no state after it in which the read returns \<open>b1 @ b2\<close>.
\<close>

theorem jfs_write_second_append_no_readback:
  "jfs_write cfg64 fs64_empty_file ''a'' (replicate 1793 7) \<noteq> None \<and>
   fst (the (jfs_write cfg64 fs64_empty_file ''a'' (replicate 1793 7))) = E_SUCCESS \<and>
   blocks_needed cfg64 (u16 (u16 (length [9 :: byte]) + append_position cfg64 1793)) = 1 \<and>
   next_start_position cfg64 1793 = 28 \<and>
   jfs_write cfg64 (snd (the (jfs_write cfg64 fs64_empty_file ''a'' (replicate 1793 7))))
     ''a'' [9] = None \<and>
   \<not> (\<exists>s2. jfs_write cfg64
              (snd (the (jfs_write cfg64 fs64_empty_file ''a'' (replicate 1793 7))))
              ''a'' [9] = Some (E_SUCCESS, s2) \<and>
            jfs_read cfg64 s2 ''a'' (length (replicate 1793 (7 :: byte) @ [9])) =
              (E_SUCCESS, replicate 1793 7 @ [9], length (replicate 1793 (7 :: byte) @ [9]), s2))"
  by (simp add: write_defs example_defs upt_conv_Cons)

text \<open>
  The append path itself works where the indices stay inside the array, which is when the
  file has no full block yet: three bytes and three more, with blocks of four bytes, give
  a file of six bytes in two blocks that reads back in order.
\<close>

lemma append_inside_first_block:
  "jfs_write cfg fs_empty_file ''a'' [1, 2, 3] \<noteq> None \<and>
   jfs_write cfg (snd (the (jfs_write cfg fs_empty_file ''a'' [1, 2, 3]))) ''a'' [4, 5, 6]
     \<noteq> None \<and>
   fst (jfs_read cfg
     (snd (the (jfs_write cfg (snd (the (jfs_write cfg fs_empty_file ''a'' [1, 2, 3])))
        ''a'' [4, 5, 6]))) ''a'' 6) = E_SUCCESS \<and>
   fst (snd (jfs_read cfg
     (snd (the (jfs_write cfg (snd (the (jfs_write cfg fs_empty_file ''a'' [1, 2, 3])))
        ''a'' [4, 5, 6]))) ''a'' 6)) = [1, 2, 3, 4, 5, 6] \<and>
   snd (jfs_stat cfg
     (snd (the (jfs_write cfg (snd (the (jfs_write cfg fs_empty_file ''a'' [1, 2, 3])))
        ''a'' [4, 5, 6]))) ''a'' stats0) =
     \<lparr>st_is_dir = IS_FILE, st_name = ''a'', st_block_num = 2, st_num_data_blocks = 2,
      st_file_size = 6\<rparr>"
  by (simp add: write_defs jfs_read_def jfs_stat_def example_defs)

text \<open>
  C3. The claim is that a write that fails midway releases every block it allocated and
  leaves no inode slot pointing at a block released during the call. Two runs of the code
  against it. In \<open>fs_no_space\<close> the file \<open>a\<close> ends inside block 3 and no block is free:
  appending five bytes releases block 3, allocates it again, finds the store exhausted
  for the second block, releases block 3 and returns \<open>E_DISK_FULL\<close>; the inode on disk is
  as before, and its first slot points at block 3, now on the free list. In
  \<open>fs_bad_block\<close> the write of the only new block, block 3, fails: the cleanup loop
  releases the blocks before the failing index only, so the call returns \<open>E_UNKNOWN\<close>
  with block 3 neither free nor referenced by the inode.
\<close>

theorem jfs_write_failure_leaves_blocks:
  "free_blocks (store fs_no_space) = [] \<and>
   fst (the (jfs_write cfg fs_no_space ''a'' [4, 5, 6, 7, 8])) = E_DISK_FULL \<and>
   free_blocks (store (snd (the (jfs_write cfg fs_no_space ''a'' [4, 5, 6, 7, 8])))) = [3] \<and>
   blocks (store (snd (the (jfs_write cfg fs_no_space ''a'' [4, 5, 6, 7, 8])))) 2 =
     File \<lparr>file_size = 3, data_blocks = [3, 0, 0, 0]\<rparr> \<and>
   free_blocks (store fs_bad_block) = [3, 4, 5, 6] \<and>
   fst (the (jfs_write cfg fs_bad_block ''a'' [9])) = E_UNKNOWN \<and>
   free_blocks (store (snd (the (jfs_write cfg fs_bad_block ''a'' [9])))) = [4, 5, 6] \<and>
   blocks (store (snd (the (jfs_write cfg fs_bad_block ''a'' [9])))) 2 =
     File \<lparr>file_size = 0, data_blocks = [0, 0, 0, 0]\<rparr>"
  by (simp add: write_defs example_defs)

section \<open>Reading a file back\<close>

lemma u16_id: "x < 65536 \<Longrightarrow> u16 x = x"
  by (simp add: u16_def)

lemma ceil_div_le: "0 < (b::nat) \<Longrightarrow> (n + b - 1) div b \<le> n"
proof (cases n)
  case 0
  then show "0 < b \<Longrightarrow> ?thesis" by simp
next
  case (Suc m)
  assume b: "0 < b"
  have "(m + b) div b = m div b + 1" using b by (simp add: div_add_self2)
  moreover have "m div b \<le> m" by simp
  ultimately show ?thesis using Suc by simp
qed

lemma ceil_div_covers: "0 < (b::nat) \<Longrightarrow> n \<le> ((n + b - 1) div b) * b"
  using dividend_less_div_times [of b "n + b - 1"] by simp

lemma length_concat_const:
  "(\<And>x. x \<in> set xs \<Longrightarrow> length (g x) = b) \<Longrightarrow> length (concat (map g xs)) = length xs * b"
  by (induction xs) simp_all

lemma read_data_blocks_ok:
  assumes "\<And>h. h \<in> set hs \<Longrightarrow> \<exists>bs. read_bytes d h = Some bs \<and> length bs = bsz"
    and "got \<le> n" and "n < 65536"
  shows "read_data_blocks d bsz n hs buf got =
     (True, buf @ take (n - got) (concat (map (\<lambda>h. the (read_bytes d h)) hs)),
      got + min (n - got) (length hs * bsz))"
  using assms
proof (induction hs arbitrary: buf got)
  case Nil
  then show ?case by simp
next
  case (Cons h hs)
  from Cons.prems(1) [of h] obtain bs where bs: "read_bytes d h = Some bs" "length bs = bsz"
    by auto
  let ?t = "min (n - got) bsz"
  from Cons.prems have t: "u16 ?t = ?t" and g: "u16 (got + ?t) = got + ?t"
    by (simp_all add: u16_id)
  have le: "got + ?t \<le> n" using Cons.prems(2) by simp
  have IH: "read_data_blocks d bsz n hs (buf @ take ?t bs) (got + ?t) =
     (True, (buf @ take ?t bs) @
        take (n - (got + ?t)) (concat (map (\<lambda>h. the (read_bytes d h)) hs)),
      (got + ?t) + min (n - (got + ?t)) (length hs * bsz))"
    by (rule Cons.IH [OF _ le Cons.prems(3)]) (simp add: Cons.prems(1))
  have a: "(buf @ take ?t bs) @
        take (n - (got + ?t)) (concat (map (\<lambda>h. the (read_bytes d h)) hs))
      = buf @ take (n - got) (concat (map (\<lambda>h. the (read_bytes d h)) (h # hs)))"
  proof (cases "n - got \<le> bsz")
    case True
    then show ?thesis using bs by simp
  next
    case False
    then show ?thesis using bs by simp
  qed
  have b: "(got + ?t) + min (n - (got + ?t)) (length hs * bsz) =
      got + min (n - got) (length (h # hs) * bsz)"
  proof (cases "n - got \<le> bsz")
    case True
    then show ?thesis by simp
  next
    case False
    then show ?thesis by simp
  qed
  have "read_data_blocks d bsz n (h # hs) buf got =
      read_data_blocks d bsz n hs (buf @ take ?t bs) (got + ?t)"
    using bs(1) t g by (simp add: Let_def)
  also note IH
  finally show ?case by (simp only: a b)
qed

lemma take_concat_prefix:
  assumes "\<And>x. x \<in> set xs \<Longrightarrow> length (g x) = b" and "k \<le> length xs" and "n \<le> k * b"
  shows "take n (concat (map g xs)) = take n (concat (map g (take k xs)))"
proof -
  have "xs = take k xs @ drop k xs" by simp
  then have "concat (map g xs) = concat (map g (take k xs)) @ concat (map g (drop k xs))"
    by (metis concat_append map_append)
  moreover have "length (concat (map g (take k xs))) = k * b"
    using assms(1,2) by (subst length_concat_const [where b = b]) (auto dest: in_set_takeD)
  ultimately show ?thesis using assms(3) by simp
qed

lemma jfs_read_file:
  assumes dir: "read_dirnode (store s) (current_dir s) = Some cb"
    and bs: "0 < BLOCK_SIZE c" and mb: "max_bytes < 65536"
    and found: "find_entry cb nm = Some i"
    and ino: "read_block (store s) (block_num (entries cb ! i)) = Some (File ino)"
    and slots: "(file_size ino + BLOCK_SIZE c - 1) div BLOCK_SIZE c \<le> length (data_blocks ino)"
    and data: "\<And>h. h \<in> set (take ((file_size ino + BLOCK_SIZE c - 1) div BLOCK_SIZE c)
                          (data_blocks ino)) \<Longrightarrow>
        \<exists>bs. read_bytes (store s) h = Some bs \<and> length bs = BLOCK_SIZE c"
  shows "jfs_read c s nm max_bytes =
     (E_SUCCESS, take (min (file_size ino) max_bytes) (file_content c (store s) ino),
      min (file_size ino) max_bytes, s)"
    and "length (file_content c (store s) ino) = file_size ino"
proof -
  let ?B = "BLOCK_SIZE c" and ?n = "min (file_size ino) max_bytes"
  let ?K = "(file_size ino + ?B - 1) div ?B" and ?k = "(?n + ?B - 1) div ?B"
  let ?g = "\<lambda>h. the (read_bytes (store s) h)"
  let ?xs = "take ?K (data_blocks ino)"
  have n: "?n < 65536" using mb by simp
  have un: "u16 ?n = ?n" using n by (rule u16_id)
  have kn: "?k \<le> ?n" using bs by (rule ceil_div_le)
  have uk: "u16 ?k = ?k"
  proof (rule u16_id)
    from kn n show "?k < 65536" by (rule le_less_trans)
  qed
  have kK: "?k \<le> ?K" by (intro div_le_mono) simp
  have cov: "?n \<le> ?k * ?B" using bs by (rule ceil_div_covers)
  have covK: "file_size ino \<le> ?K * ?B" using bs by (rule ceil_div_covers)
  have tk: "take ?k (data_blocks ino) = take ?k ?xs" using kK by (simp add: min_def)
  have len: "\<And>h. h \<in> set ?xs \<Longrightarrow> length (?g h) = ?B"
    using data by fastforce
  have lxs: "length ?xs = ?K" using slots by simp
  have rd: "read_data_blocks (store s) ?B ?n (take ?k (data_blocks ino)) [] 0 =
      (True, [] @ take (?n - 0) (concat (map ?g (take ?k (data_blocks ino)))),
       0 + min (?n - 0) (length (take ?k (data_blocks ino)) * ?B))"
  proof (rule read_data_blocks_ok)
    fix h assume "h \<in> set (take ?k (data_blocks ino))"
    then have "h \<in> set ?xs" unfolding tk by (rule in_set_takeD)
    then show "\<exists>bs. read_bytes (store s) h = Some bs \<and> length bs = ?B" by (rule data)
  qed (simp_all add: n)
  have lk: "length (take ?k (data_blocks ino)) = ?k" using kK slots by simp
  have cnt: "min ?n (?k * ?B) = ?n" using cov by simp
  have fc: "file_content c (store s) ino = take (file_size ino) (concat (map ?g ?xs))"
  proof -
    have "map (\<lambda>h. case read_bytes (store s) h of Some bs \<Rightarrow> take ?B bs | None \<Rightarrow> []) ?xs =
          map ?g ?xs"
    proof (rule map_cong [OF refl])
      fix h assume "h \<in> set ?xs"
      from data [OF this] show
        "(case read_bytes (store s) h of Some bs \<Rightarrow> take ?B bs | None \<Rightarrow> []) = ?g h"
        by auto
    qed
    then show ?thesis unfolding file_content_def by (rule arg_cong)
  qed
  have lc: "length (concat (map ?g ?xs)) = ?K * ?B"
    using len lxs by (subst length_concat_const [where b = ?B]) auto
  show L: "length (file_content c (store s) ino) = file_size ino"
    unfolding fc using lc covK by simp
  have "take ?n (file_content c (store s) ino) = take ?n (concat (map ?g ?xs))"
    unfolding fc by (simp add: min_def)
  also have "\<dots> = take ?n (concat (map ?g (take ?k ?xs)))"
    using len kK cov lxs by (intro take_concat_prefix [where b = ?B]) auto
  finally have pre: "take ?n (file_content c (store s) ino) =
      take ?n (concat (map ?g (take ?k (data_blocks ino))))"
    unfolding tk .
  from rd have rd': "read_data_blocks (store s) ?B ?n (take ?k (data_blocks ino)) [] 0 =
      (True, take ?n (file_content c (store s) ino), ?n)"
    unfolding pre lk by (simp only: cnt append_Nil diff_zero add_0)
  show "jfs_read c s nm max_bytes =
     (E_SUCCESS, take ?n (file_content c (store s) ino), ?n, s)"
    using dir found ino rd' uk by (simp add: jfs_read_def Let_def un)
qed



section \<open>Creating, writing and reading back\<close>

lemma allocate_data_blocks_ok:
  assumes "free_blocks d = hs @ rest" and "0 \<notin> set hs" and "i + length hs \<le> length arr"
  shows "allocate_data_blocks d arr start [i ..< i + length hs] =
     Continue (take i arr @ hs @ drop (i + length hs) arr, d\<lparr>free_blocks := rest\<rparr>)"
  using assms
proof (induction hs arbitrary: d arr i)
  case Nil
  then show ?case by simp
next
  case (Cons h hs)
  let ?d1 = "d\<lparr>free_blocks := hs @ rest\<rparr>" and ?arr1 = "arr[i := h]"
  from Cons.prems have i: "i < length arr" and h: "h \<noteq> 0" by auto
  have "[i ..< i + length (h # hs)] = i # [Suc i ..< i + length (h # hs)]"
    by (rule upt_conv_Cons) simp
  then have upt: "[i ..< i + length (h # hs)] = i # [Suc i ..< Suc i + length hs]"
    by simp
  have al: "allocate_block d = (h, ?d1)"
    using Cons.prems(1) by (simp add: allocate_block_def)
  have IH: "allocate_data_blocks ?d1 ?arr1 start [Suc i ..< Suc i + length hs] =
     Continue (take (Suc i) ?arr1 @ hs @ drop (Suc i + length hs) ?arr1,
               ?d1\<lparr>free_blocks := rest\<rparr>)"
    using Cons.prems by (intro Cons.IH) auto
  have t: "take (Suc i) ?arr1 = take i arr @ [h]"
    using i by (simp add: take_Suc_conv_app_nth)
  have "allocate_data_blocks d arr start [i ..< i + length (h # hs)] =
      allocate_data_blocks ?d1 ?arr1 start [Suc i ..< Suc i + length hs]"
    unfolding upt using al i h by simp
  also note IH
  finally show ?case using t by simp
qed

lemma fold_update_prefix:
  assumes "m \<le> length hs" and "m \<le> length db"
  shows "fold (\<lambda>i db. db[i := hs ! i]) [0 ..< m] db = take m hs @ drop m db"
  using assms
proof (induction m)
  case 0
  then show ?case by simp
next
  case (Suc m)
  then have IH: "fold (\<lambda>i db. db[i := hs ! i]) [0 ..< m] db = take m hs @ drop m db"
    by simp
  from Suc.prems have l: "length (take m hs) = m" by simp
  from Suc.prems have d: "drop m db = db ! m # drop (Suc m) db"
    by (simp add: Cons_nth_drop_Suc)
  have "(take m hs @ drop m db)[m := hs ! m] = take m hs @ (drop m db)[0 := hs ! m]"
    using l by (simp add: list_update_append)
  also have "\<dots> = take m hs @ hs ! m # drop (Suc m) db"
    by (simp add: d)
  also have "\<dots> = take (Suc m) hs @ drop (Suc m) db"
    using Suc.prems by (simp add: take_Suc_conv_app_nth)
  finally show ?case using IH by simp
qed

lemma take_add_drop: "take a xs @ take b (drop a xs) = take (a + b) xs"
  by (simp add: take_add)

lemma write_data_blocks_ok:
  assumes "\<And>i. i \<in> set idx \<Longrightarrow> i < length arr"
    and "distinct (map ((!) arr) idx)"
    and "\<And>i. i \<in> set idx \<Longrightarrow>
           arr ! i \<notin> set (write_faults d) \<and> arr ! i \<notin> set (read_faults d)"
    and "w \<le> ws" and "ws < 65536" and "ws \<le> length buf"
    and "ws - w \<le> length idx * bsz"
  shows "\<exists>d'. write_data_blocks bsz d arr start buf ws w idx = Continue d' \<and>
     free_blocks d' = free_blocks d \<and> read_faults d' = read_faults d \<and>
     write_faults d' = write_faults d \<and> release_faults d' = release_faults d \<and>
     (\<forall>h. h \<notin> set (map ((!) arr) idx) \<longrightarrow> blocks d' h = blocks d h) \<and>
     (\<forall>i \<in> set idx. \<exists>bs. read_bytes d' (arr ! i) = Some bs \<and> length bs = bsz) \<and>
     take (ws - w) (concat (map (\<lambda>i. the (read_bytes d' (arr ! i))) idx)) =
       take (ws - w) (drop w buf)"
  using assms
proof (induction idx arbitrary: d w)
  case Nil
  then show ?case by simp
next
  case (Cons i idx)
  let ?t = "min (ws - w) bsz"
  let ?blk = "take ?t (drop w buf) @ replicate (bsz - ?t) (0::byte)"
  let ?d1 = "d\<lparr>blocks := (blocks d)(arr ! i := Data ?blk)\<rparr>"
  from Cons.prems have ut: "u16 ?t = ?t" and uw: "u16 (w + ?t) = w + ?t"
    by (simp_all add: u16_id)
  have lt: "length (take ?t (drop w buf)) = ?t"
    using Cons.prems(4,6) by simp
  have mc: "memcpy (replicate bsz 0) 0 (take ?t (drop w buf)) = ?blk"
    unfolding memcpy_def using lt by simp
  have lb: "length ?blk = bsz" using lt by simp
  from Cons.prems(1) [of i] have il: "i < length arr" by simp
  from Cons.prems(3) [of i] have nf: "arr ! i \<notin> set (write_faults d)"
    "arr ! i \<notin> set (read_faults d)" by simp_all
  have wb: "write_block d (arr ! i) (Data ?blk) = (True, ?d1)"
    using nf by (simp add: write_block_def)
  have step: "write_data_blocks bsz d arr start buf ws w (i # idx) =
      write_data_blocks bsz ?d1 arr start buf ws (w + ?t) idx"
    using il wb ut uw mc by (simp add: Let_def)
  have rest: "ws - (w + ?t) \<le> length idx * bsz"
    using Cons.prems(7) by (auto simp: min_def)
  have "\<exists>d'. write_data_blocks bsz ?d1 arr start buf ws (w + ?t) idx = Continue d' \<and>
     free_blocks d' = free_blocks ?d1 \<and> read_faults d' = read_faults ?d1 \<and>
     write_faults d' = write_faults ?d1 \<and> release_faults d' = release_faults ?d1 \<and>
     (\<forall>h. h \<notin> set (map ((!) arr) idx) \<longrightarrow> blocks d' h = blocks ?d1 h) \<and>
     (\<forall>i \<in> set idx. \<exists>bs. read_bytes d' (arr ! i) = Some bs \<and> length bs = bsz) \<and>
     take (ws - (w + ?t)) (concat (map (\<lambda>i. the (read_bytes d' (arr ! i))) idx)) =
       take (ws - (w + ?t)) (drop (w + ?t) buf)"
  proof (rule Cons.IH)
    show "distinct (map ((!) arr) idx)" using Cons.prems(2) by simp
    show "w + ?t \<le> ws" using Cons.prems(4) by simp
    show "ws - (w + ?t) \<le> length idx * bsz" by (rule rest)
  qed (use Cons.prems in auto)
  then obtain d' where d': "write_data_blocks bsz ?d1 arr start buf ws (w + ?t) idx = Continue d'"
    and fr: "free_blocks d' = free_blocks d" "read_faults d' = read_faults d"
      "write_faults d' = write_faults d" "release_faults d' = release_faults d"
    and oth: "\<And>h. h \<notin> set (map ((!) arr) idx) \<Longrightarrow> blocks d' h = blocks ?d1 h"
    and rd: "\<And>j. j \<in> set idx \<Longrightarrow> \<exists>bs. read_bytes d' (arr ! j) = Some bs \<and> length bs = bsz"
    and cc: "take (ws - (w + ?t)) (concat (map (\<lambda>i. the (read_bytes d' (arr ! i))) idx)) =
       take (ws - (w + ?t)) (drop (w + ?t) buf)"
    by auto
  have ni: "arr ! i \<notin> set (map ((!) arr) idx)" using Cons.prems(2) by simp
  have bi: "blocks d' (arr ! i) = Data ?blk" using oth [OF ni] by simp
  have ri: "read_bytes d' (arr ! i) = Some ?blk"
    using bi nf(2) fr(2) by (simp add: read_bytes_def read_block_def)
  have cat: "take (ws - w) (concat (map (\<lambda>i. the (read_bytes d' (arr ! i))) (i # idx))) =
       take (ws - w) (drop w buf)"
  proof (cases "ws - w \<le> bsz")
    case True
    then have "?t = ws - w" by simp
    then show ?thesis using ri lb lt by simp
  next
    case False
    then have t: "?t = bsz" by simp
    have "take (ws - w) (?blk @ concat (map (\<lambda>i. the (read_bytes d' (arr ! i))) idx)) =
        ?blk @ take (ws - w - bsz) (concat (map (\<lambda>i. the (read_bytes d' (arr ! i))) idx))"
      using lb False by simp
    also have "\<dots> = take bsz (drop w buf) @ take (ws - w - bsz) (drop bsz (drop w buf))"
      using cc t by (simp add: add.commute)
    also have "\<dots> = take (bsz + (ws - w - bsz)) (drop w buf)"
      by (rule take_add_drop)
    also have "bsz + (ws - w - bsz) = ws - w" using False by simp
    finally show ?thesis using ri by simp
  qed
  show ?case
  proof (intro exI [of _ d'] conjI)
    show "write_data_blocks bsz d arr start buf ws w (i # idx) = Continue d'"
      using step d' by simp
    show "\<forall>h. h \<notin> set (map ((!) arr) (i # idx)) \<longrightarrow> blocks d' h = blocks d h"
      using oth by auto
    show "\<forall>j \<in> set (i # idx). \<exists>bs. read_bytes d' (arr ! j) = Some bs \<and> length bs = bsz"
      using rd ri lb by auto
    show "take (ws - w) (concat (map (\<lambda>i. the (read_bytes d' (arr ! i))) (i # idx))) =
       take (ws - w) (drop w buf)" by (rule cat)
  qed (simp_all add: fr)
qed

lemma find_name_new_entry:
  assumes "nm \<notin> set (map name (take n es))" and "n < length es"
  shows "find_name (take (Suc n) (es[n := \<lparr>block_num = h, name = nm\<rparr>])) nm = Some n"
  using assms
proof (induction es arbitrary: n)
  case Nil
  then show ?case by simp
next
  case (Cons e es)
  show ?case
  proof (cases n)
    case 0
    then show ?thesis by simp
  next
    case (Suc m)
    with Cons.prems have "nm \<notin> set (map name (take m es))" "m < length es" "name e \<noteq> nm"
      by auto
    with Cons.IH [of m] Suc show ?thesis by simp
  qed
qed

lemma map_nth_fun: "map (\<lambda>i. g (xs ! i)) [0 ..< length xs] = map g xs"
  by (rule nth_equalityI) simp_all

lemma ceil_div_mono_bound:
  assumes "0 < (b::nat)" and "n \<le> m * b"
  shows "(n + b - 1) div b \<le> m"
proof -
  have "(n + b - 1) div b \<le> (m * b + b - 1) div b"
    using assms(2) by (intro div_le_mono) simp
  also have "(m * b + b - 1) div b = m"
  proof -
    have "m * b + b - 1 = (b - 1) + m * b" using assms(1) by simp
    then show ?thesis using assms(1) by (simp only: div_mult_self1) simp
  qed
  finally show ?thesis .
qed

text \<open>
  C1, with the resources the sequence needs. Let \<open>b\<close> have at most \<open>MAX_FILE_SIZE\<close> bytes and let \<open>f\<close> be a name of
  at most \<open>MAX_NAME_LENGTH\<close> bytes that is not in the current directory. When the
  current directory has room for another entry and the block store hands out a block for
  the inode and \<open>ceil(length b / BLOCK_SIZE)\<close> blocks for the data (distinct handles other
  than 0 and the current directory, on which the device does not fail), then
  \<^verbatim>\<open>jfs_creat\<close>, \<^verbatim>\<open>jfs_write\<close> and \<^verbatim>\<open>jfs_read\<close> with \<open>length b\<close> succeed in turn and
  the read returns \<open>b\<close> and the count \<open>length b\<close>. The constants satisfy
  \<open>MAX_FILE_SIZE \<le> MAX_DATA_BLOCKS * BLOCK_SIZE\<close>, and the length of \<open>b\<close> is a count
  that the interface passes as an \<^verbatim>\<open>unsigned short\<close>.
\<close>

theorem creat_write_read_roundtrip:
  assumes bs: "0 < BLOCK_SIZE c" and lenb: "length b < 65536"
    and cap: "MAX_FILE_SIZE c \<le> MAX_DATA_BLOCKS c * BLOCK_SIZE c"
    and len: "length b \<le> MAX_FILE_SIZE c"
    and nml: "length f \<le> MAX_NAME_LENGTH c"
    and dir: "read_dirnode (store s) (current_dir s) = Some cb"
    and fresh: "f \<notin> set (dir_names cb)"
    and room: "num_entries cb < MAX_DIR_ENTRIES c" "num_entries cb < length (entries cb)"
    and free: "free_blocks (store s) = h0 # hs @ rest"
    and need: "length hs = (length b + BLOCK_SIZE c - 1) div BLOCK_SIZE c"
    and dist: "distinct (h0 # hs)" and nz: "0 \<notin> set (h0 # hs)"
    and ncur: "current_dir s \<notin> set (h0 # hs)"
    and wf: "set (current_dir s # h0 # hs) \<inter> set (write_faults (store s)) = {}"
    and rf: "set (h0 # hs) \<inter> set (read_faults (store s)) = {}"
  shows "\<exists>s1 s2. jfs_creat c s f = (E_SUCCESS, s1) \<and>
     jfs_write c s1 f b = Some (E_SUCCESS, s2) \<and>
     jfs_read c s2 f (length b) = (E_SUCCESS, b, length b, s2)"
proof -
  let ?B = "BLOCK_SIZE c"
  define n where "n = num_entries cb"
  define cur where "cur = current_dir s"
  define ino0 where "ino0 = \<lparr>file_size = 0, data_blocks = replicate (MAX_DATA_BLOCKS c) 0\<rparr>"
  define cb' where "cb' = cb\<lparr>entries := (entries cb)[n := \<lparr>block_num = h0, name = f\<rparr>],
                              num_entries := n + 1\<rparr>"
  define d1 where "d1 = (store s)\<lparr>free_blocks := hs @ rest\<rparr>"
  define d2 where "d2 = d1\<lparr>blocks := (blocks d1)(h0 := File ino0)\<rparr>"
  define d3 where "d3 = d2\<lparr>blocks := (blocks d2)(cur := Dir cb')\<rparr>"
  define s1 where "s1 = s\<lparr>store := d3\<rparr>"
  have curr: "cur \<notin> set (read_faults (store s))"
    using dir by (auto simp: cur_def read_dirnode_def read_block_def split: if_splits)
  have h0cur: "h0 \<noteq> cur" using ncur by (auto simp: cur_def)
  have h0nz: "h0 \<noteq> 0" using nz by auto
  have ub: "u16 (length b) = length b" using lenb by (rule u16_id)
  have st1: "store s1 = d3" "current_dir s1 = cur" by (simp_all add: s1_def cur_def)
  have d3f: "free_blocks d3 = hs @ rest" "read_faults d3 = read_faults (store s)"
    "write_faults d3 = write_faults (store s)"
    by (simp_all add: d3_def d2_def d1_def)

  \<comment> \<open>creat\<close>
  have creat: "jfs_creat c s f = (E_SUCCESS, s1)"
  proof -
    have fe: "find_entry cb f = None" using fresh by (simp add: find_entry_None)
    have al: "allocate_block (store s) = (h0, d1)"
      using free by (simp add: allocate_block_def d1_def)
    have w1: "write_block d1 h0 (File ino0) = (True, d2)"
      using wf by (simp add: write_block_def d2_def d1_def)
    have w2: "write_block d2 (current_dir s) (Dir cb') = (True, d3)"
      using wf by (simp add: write_block_def d3_def d2_def d1_def cur_def)
    show ?thesis
      unfolding jfs_creat_def
      using nml dir fe room(1) al h0nz w1 w2 [unfolded cb'_def]
      by (simp add: Let_def ino0_def [symmetric] n_def [symmetric] s1_def)
  qed

  \<comment> \<open>the state after creat\<close>
  have dir1: "read_dirnode (store s1) (current_dir s1) = Some cb'"
    using curr by (simp add: st1 d3_def d2_def d1_def read_dirnode_def read_block_def)
  have found: "find_entry cb' f = Some n"
  proof -
    have "f \<notin> set (map name (take n (entries cb)))"
      using fresh by (simp add: dir_names_def n_def)
    from find_name_new_entry [OF this, of h0] room(2)
    show ?thesis by (simp add: find_entry_def cb'_def n_def)
  qed
  have tgt: "block_num (entries cb' ! n) = h0"
    using room(2) by (simp add: cb'_def n_def)
  have ino1: "read_block (store s1) (block_num (entries cb' ! n)) = Some (File ino0)"
    using rf h0cur by (simp add: tgt st1 d3_def d2_def d1_def read_block_def)

  \<comment> \<open>write\<close>
  define k where "k = length hs"
  have kle: "k \<le> length b" unfolding k_def need using bs by (rule ceil_div_le)
  have kcap: "k \<le> MAX_DATA_BLOCKS c"
    unfolding k_def need using bs len cap by (intro ceil_div_mono_bound) simp_all
  have fs0: "file_size ino0 = 0" by (simp add: ino0_def)
  have ap0: "append_position c 0 = 0" by (simp add: append_position_def u16_def)
  have ns0: "next_start_position c 0 = 0" by (simp add: next_start_position_def)
  have bn: "blocks_needed c (length b) = length hs"
    using kle lenb by (simp add: blocks_needed_def need k_def u16_id)
  have prep: "prepare_append c (store s1) ino0 b = Some (b, store s1)"
    by (simp add: prepare_append_def fs0 ap0)
  define d4 where "d4 = d3\<lparr>free_blocks := rest\<rparr>"
  have alloc: "allocate_data_blocks (store s1) (replicate (length hs) 0) 0 [0 ..< length hs] =
      Continue (hs, d4)"
  proof -
    have "0 \<notin> set hs" using nz by simp
    from allocate_data_blocks_ok [OF d3f(1) this, of 0 "replicate (length hs) 0" 0]
    show ?thesis by (simp add: st1 d4_def)
  qed
  have d4f: "read_faults d4 = read_faults (store s)" "write_faults d4 = write_faults (store s)"
    by (simp_all add: d4_def d3f)
  have "\<exists>d'. write_data_blocks ?B d4 hs 0 b (length b) 0 [0 ..< length hs] = Continue d' \<and>
     free_blocks d' = free_blocks d4 \<and> read_faults d' = read_faults d4 \<and>
     write_faults d' = write_faults d4 \<and> release_faults d' = release_faults d4 \<and>
     (\<forall>h. h \<notin> set (map ((!) hs) [0 ..< length hs]) \<longrightarrow> blocks d' h = blocks d4 h) \<and>
     (\<forall>i \<in> set [0 ..< length hs]. \<exists>bs. read_bytes d' (hs ! i) = Some bs \<and> length bs = ?B) \<and>
     take (length b - 0) (concat (map (\<lambda>i. the (read_bytes d' (hs ! i))) [0 ..< length hs])) =
       take (length b - 0) (drop 0 b)"
  proof (rule write_data_blocks_ok)
    show "distinct (map ((!) hs) [0 ..< length hs])" using dist by (simp add: map_nth)
    show "length b - 0 \<le> length [0 ..< length hs] * ?B"
      using ceil_div_covers [OF bs, of "length b"] by (simp add: need)
    show "length b < 65536" by (rule lenb)
    fix i assume "i \<in> set [0 ..< length hs]"
    then have "hs ! i \<in> set hs" by simp
    with wf rf show "hs ! i \<notin> set (write_faults d4) \<and> hs ! i \<notin> set (read_faults d4)"
      unfolding d4f by auto
  qed simp_all
  then obtain d5 where wr: "write_data_blocks ?B d4 hs 0 b (length b) 0 [0 ..< length hs] =
        Continue d5"
    and d5f0: "read_faults d5 = read_faults d4" "write_faults d5 = write_faults d4"
    and d5o0: "\<forall>h. h \<notin> set (map ((!) hs) [0 ..< length hs]) \<longrightarrow> blocks d5 h = blocks d4 h"
    and d5r0: "\<forall>i \<in> set [0 ..< length hs].
        \<exists>bs. read_bytes d5 (hs ! i) = Some bs \<and> length bs = ?B"
    and d5c0: "take (length b - 0)
        (concat (map (\<lambda>i. the (read_bytes d5 (hs ! i))) [0 ..< length hs])) =
       take (length b - 0) (drop 0 b)"
    by blast
  have d5f: "read_faults d5 = read_faults (store s)" "write_faults d5 = write_faults (store s)"
    using d5f0 d4f by simp_all
  have d5o: "blocks d5 h = blocks d4 h" if "h \<notin> set hs" for h
    using d5o0 that by (simp add: map_nth)
  have d5r: "\<exists>bs. read_bytes d5 h = Some bs \<and> length bs = ?B" if "h \<in> set hs" for h
  proof -
    from that obtain i where "i < length hs" "hs ! i = h" by (auto simp: in_set_conv_nth)
    with d5r0 show ?thesis by auto
  qed
  have d5c: "take (length b) (concat (map (\<lambda>h. the (read_bytes d5 h)) hs)) = b"
    using d5c0 map_nth_fun [of "\<lambda>h. the (read_bytes d5 h)" hs] by simp
  define dbs where "dbs = hs @ replicate (MAX_DATA_BLOCKS c - k) 0"
  have fold_eq: "fold (\<lambda>i db. db[i := hs ! i]) [0 ..< length hs] (data_blocks ino0) = dbs"
    using fold_update_prefix [of "length hs" hs "data_blocks ino0"] kcap
    by (simp add: ino0_def dbs_def k_def)
  define ino' where "ino' = \<lparr>file_size = length b, data_blocks = dbs\<rparr>"
  define d6 where "d6 = d5\<lparr>blocks := (blocks d5)(h0 := File ino')\<rparr>"
  define s2 where "s2 = s1\<lparr>store := d6\<rparr>"
  have w3: "write_block d5 h0 (File ino') = (True, d6)"
    using wf by (simp add: write_block_def d6_def d5f)
  have nfs: "new_file_size 0 (length b) 0 = length b"
    using lenb by (simp add: new_file_size_def)
  have inoeq: "ino0\<lparr>data_blocks := dbs, file_size := length b\<rparr> = ino'"
    by (simp add: ino0_def ino'_def)
  have "length b \<le> MAX_FILE_SIZE c" by (rule len)
  then have wr_ok: "jfs_write c s1 f b = Some (E_SUCCESS, s2)"
    unfolding jfs_write_def
    using dir1 found ino1 prep alloc wr fold_eq w3
    by (simp add: Let_def fs0 ap0 ns0 ub bn tgt nfs inoeq s2_def)

  \<comment> \<open>read\<close>
  have st2: "store s2 = d6" "current_dir s2 = cur" by (simp_all add: s2_def st1)
  have curhs: "cur \<notin> set hs" using ncur by (simp add: cur_def)
  have h0hs: "h0 \<notin> set hs" using dist by simp
  have dir2: "read_dirnode (store s2) (current_dir s2) = Some cb'"
    using curr h0cur d5o [OF curhs]
    by (simp add: st2 d6_def d4_def d3_def d2_def d1_def read_dirnode_def read_block_def d5f)
  have ino2: "read_block (store s2) (block_num (entries cb' ! n)) = Some (File ino')"
    using rf by (simp add: tgt st2 d6_def read_block_def d5f)
  have K: "(file_size ino' + ?B - 1) div ?B = k"
    by (simp add: ino'_def need k_def)
  have tk: "take k (data_blocks ino') = hs" by (simp add: ino'_def dbs_def k_def)
  have slots: "(file_size ino' + ?B - 1) div ?B \<le> length (data_blocks ino')"
    unfolding K using kcap by (simp add: ino'_def dbs_def k_def)
  have rb: "\<And>h. h \<in> set hs \<Longrightarrow> read_bytes (store s2) h = read_bytes d5 h"
    using h0hs by (auto simp: st2 d6_def read_bytes_def read_block_def)
  have data: "\<And>h. h \<in> set (take ((file_size ino' + ?B - 1) div ?B) (data_blocks ino')) \<Longrightarrow>
        \<exists>bs. read_bytes (store s2) h = Some bs \<and> length bs = ?B"
    unfolding K tk using d5r rb by simp
  note rfile = jfs_read_file [OF dir2 bs lenb found ino2 slots data]
  have "file_content c (store s2) ino' = b"
  proof -
    have "map (\<lambda>h. case read_bytes (store s2) h of Some bs \<Rightarrow> take ?B bs | None \<Rightarrow> []) hs =
          map (\<lambda>h. the (read_bytes d5 h)) hs"
    proof (rule map_cong [OF refl])
      fix h assume h: "h \<in> set hs"
      from d5r [OF h] rb [OF h] show
        "(case read_bytes (store s2) h of Some bs \<Rightarrow> take ?B bs | None \<Rightarrow> []) =
          the (read_bytes d5 h)"
        by auto
    qed
    then have "file_content c (store s2) ino' =
        take (file_size ino') (concat (map (\<lambda>h. the (read_bytes d5 h)) hs))"
      unfolding file_content_def K tk by (rule arg_cong)
    then show ?thesis using d5c by (simp add: ino'_def)
  qed
  with rfile(1) have rd_ok: "jfs_read c s2 f (length b) = (E_SUCCESS, b, length b, s2)"
    by (simp add: ino'_def)
  from creat wr_ok rd_ok show ?thesis by blast
qed

theorem creat_write_read_roundtrip_witness:
  "\<exists>s1 s2. jfs_creat cfg fs_empty ''a'' = (E_SUCCESS, s1) \<and>
     jfs_write cfg s1 ''a'' [1, 2, 3, 4, 5] = Some (E_SUCCESS, s2) \<and>
     jfs_read cfg s2 ''a'' 5 = (E_SUCCESS, [1, 2, 3, 4, 5], 5, s2)"
proof -
  let ?cb = "\<lparr>num_entries = 0, entries = [no_entry, no_entry]\<rparr>"
  let ?b = "[1, 2, 3, 4, 5] :: byte list"
  have 1: "0 < BLOCK_SIZE cfg" "length ?b < 65536"
    "MAX_FILE_SIZE cfg \<le> MAX_DATA_BLOCKS cfg * BLOCK_SIZE cfg"
    "length ?b \<le> MAX_FILE_SIZE cfg" "length ''a'' \<le> MAX_NAME_LENGTH cfg"
    by (simp_all add: cfg_def)
  have 2: "read_dirnode (store fs_empty) (current_dir fs_empty) = Some ?cb"
    by (simp add: example_defs)
  have 3: "''a'' \<notin> set (dir_names ?cb)" "num_entries ?cb < MAX_DIR_ENTRIES cfg"
    "num_entries ?cb < length (entries ?cb)"
    by (simp_all add: dir_names_def cfg_def)
  have 4: "free_blocks (store fs_empty) = 2 # [3, 4] @ [5, 6, 7]"
    "length [3, 4 :: nat] = (length ?b + BLOCK_SIZE cfg - 1) div BLOCK_SIZE cfg"
    by (simp_all add: example_defs)
  have 5: "distinct [2, 3, 4 :: nat]" "0 \<notin> set [2, 3, 4 :: nat]"
    "current_dir fs_empty \<notin> set [2, 3, 4]"
    "set (current_dir fs_empty # [2, 3, 4]) \<inter> set (write_faults (store fs_empty)) = {}"
    "set [2, 3, 4] \<inter> set (read_faults (store fs_empty)) = {}"
    by (simp_all add: example_defs)
  have l: "length ?b = 5" by simp
  from creat_write_read_roundtrip [OF 1 2 3 4 5] show ?thesis unfolding l .
qed

text \<open>
  C1, as stated, promises success for every valid fresh name. In \<open>fs_full_dir\<close> the
  current directory already holds \<open>MAX_DIR_ENTRIES\<close> entries: \<open>b\<close> is a valid name that
  is not in it, and \<^verbatim>\<open>jfs_creat\<close> refuses it with \<open>E_MAX_DIR_ENTRIES\<close>, after which the
  write and the read of the sequence find no such file.
\<close>

theorem creat_write_read_full_directory:
  "length ([] :: byte list) \<le> MAX_FILE_SIZE cfg \<and>
   length ''b'' \<le> MAX_NAME_LENGTH cfg \<and>
   read_dirnode (store fs_full_dir) (current_dir fs_full_dir) =
     Some \<lparr>num_entries = 2,
        entries = [\<lparr>block_num = 2, name = ''d''\<rparr>, \<lparr>block_num = 3, name = ''a''\<rparr>]\<rparr> \<and>
   ''b'' \<notin> set (dir_names \<lparr>num_entries = 2,
        entries = [\<lparr>block_num = 2, name = ''d''\<rparr>, \<lparr>block_num = 3, name = ''a''\<rparr>]\<rparr>) \<and>
   jfs_creat cfg fs_full_dir ''b'' = (E_MAX_DIR_ENTRIES, fs_full_dir) \<and>
   jfs_write cfg fs_full_dir ''b'' [] = Some (E_NOT_EXISTS, fs_full_dir) \<and>
   jfs_read cfg fs_full_dir ''b'' 0 = (E_NOT_EXISTS, [], 0, fs_full_dir)"
  by (simp add: jfs_creat_def jfs_write_def jfs_read_def dir_names_def example_defs)

end
